theory Spec2Isabelle
  imports Complex_Main
begin

section \<open>Floating-point numbers\<close>

text \<open>
  The program computes on 32-bit floats (the entries of the detection tensor and the
  NumPy scalars read from it) and on 64-bit floats (Python's \<open>float\<close>).  A float is
  modelled by the real number it denotes, and an operation by the exact operation
  followed by rounding to the nearest float of the format, a value half way between two
  floats going to the one with the even significand.  The formats have significands of
  24 and 53 bits.  Exponents are unbounded here: overflow to infinity, subnormal numbers
  and NaN are not modelled, and none of them arises from the pixel coordinates of a page.
\<close>

text \<open>The number of binary digits of a natural number.\<close>

fun bit_length :: "nat \<Rightarrow> nat" where
  "bit_length n = (if n = 0 then 0 else Suc (bit_length (n div 2)))"

declare bit_length.simps [simp del]

text \<open>The exponent \<open>e\<close> of a number other than zero: \<open>2 ^ e \<le> \<bar>x\<bar> < 2 ^ (e + 1)\<close>.\<close>

definition exponent_of :: "real \<Rightarrow> int" where
  "exponent_of x =
     (if 1 \<le> \<bar>x\<bar> then int (bit_length (nat \<lfloor>\<bar>x\<bar>\<rfloor>)) - 1
      else - int (bit_length (nat (\<lceil>1 / \<bar>x\<bar>\<rceil> - 1))))"

definition pow2 :: "int \<Rightarrow> real" where
  "pow2 e = (if 0 \<le> e then 2 ^ nat e else 1 / 2 ^ nat (- e))"

text \<open>Rounding to the nearest integer, a value half way between two going to the even one.\<close>

definition round_half_even :: "real \<Rightarrow> int" where
  "round_half_even x =
     (let f = \<lfloor>x\<rfloor>; d = x - of_int f
      in if d < 1 / 2 then f
         else if 1 / 2 < d then f + 1
         else if even f then f else f + 1)"

text \<open>Rounding to a significand of \<open>p\<close> bits: to the nearest multiple of the unit in the
  last place.\<close>

definition round_to_precision :: "nat \<Rightarrow> real \<Rightarrow> real" where
  "round_to_precision p x =
     (if x = 0 then 0
      else (let ulp = pow2 (exponent_of x - (int p - 1))
            in of_int (round_half_even (x / ulp)) * ulp))"

definition float32 :: "real \<Rightarrow> real" where
  "float32 = round_to_precision 24"

definition float64 :: "real \<Rightarrow> real" where
  "float64 = round_to_precision 53"

text \<open>The numbers that are 32-bit floats: rounding leaves them as they are.\<close>

definition float32_value :: "real \<Rightarrow> bool" where
  "float32_value x = (float32 x = x)"

section \<open>Detection results\<close>

text \<open>
  The predictor returns a list holding one \<open>Results\<close> object per image; the pipeline
  always passes one image and only ever reads \<open>results[0]\<close>, so a value of type
  \<open>results\<close> stands for that object.  Its \<open>boxes\<close> attribute is either \<open>None\<close> or a
  \<open>Boxes\<close> object wrapping the tensor \<open>data\<close>, one row per detection, laid out as
  \<open>[x1, y1, x2, y2, conf, cls]\<close> or \<open>[x1, y1, x2, y2, track_id, conf, cls]\<close>.

  A tensor has one column count for all of its rows, and \<open>torch.cat\<close> along dimension 0
  needs the same column count in both operands.  The type parameter \<open>'t\<close> of a row is the
  content of the tracking column: \<open>unit\<close> for the six-column format and \<open>real\<close> for the
  seven-column one, so that the rows of one tensor, and the two operands of a merge,
  share their format by typing.

  The entries of the tensor are 32-bit floats, and arithmetic on the tensor rounds its
  results to 32-bit floats.
\<close>

record 't row =
  x1 :: real
  y1 :: real
  x2 :: real
  y2 :: real
  track_id :: 't
  conf :: real
  cls :: real

record 't results =
  boxes :: "'t row list option"
  orig_shape :: "nat \<times> nat"

text \<open>The test \<open>results[0].boxes is None or len(results[0].boxes) == 0\<close>.\<close>

definition boxes_empty :: "'t results \<Rightarrow> bool" where
  "boxes_empty results =
     (case boxes results of None \<Rightarrow> True | Some data \<Rightarrow> length data = 0)"

text \<open>The detections of a result, in order: the rows of its tensor, none without boxes.\<close>

definition dets :: "'t results \<Rightarrow> 't row list" where
  "dets results = (case boxes results of None \<Rightarrow> [] | Some data \<Rightarrow> data)"

subsection \<open>\<open>_adjust_detection_coordinates\<close>\<close>

text \<open>
  \<open>data[:, 0] += x_offset\<close>, \<open>data[:, 1] += y_offset\<close>, \<open>data[:, 2] += x_offset\<close>,
  \<open>data[:, 3] += y_offset\<close> on a clone of the tensor.  The offsets are Python integers:
  each is converted to a 32-bit float and added in 32-bit arithmetic.
\<close>

definition adjust_row :: "int \<Rightarrow> int \<Rightarrow> 't row \<Rightarrow> 't row" where
  "adjust_row x_offset y_offset r =
     r\<lparr>x1 := float32 (x1 r + float32 (of_int x_offset)),
       y1 := float32 (y1 r + float32 (of_int y_offset)),
       x2 := float32 (x2 r + float32 (of_int x_offset)),
       y2 := float32 (y2 r + float32 (of_int y_offset))\<rparr>"

text \<open>
  The translation of a row is exact when the offsets, the coordinates of the row and the
  translated coordinates are all 32-bit floats, as they are for integers below \<open>2 ^ 24\<close>.
\<close>

definition translation_exact :: "int \<Rightarrow> int \<Rightarrow> 't row \<Rightarrow> bool" where
  "translation_exact x_offset y_offset r =
     (float32_value (of_int x_offset) \<and> float32_value (of_int y_offset) \<and>
      float32_value (x1 r) \<and> float32_value (y1 r) \<and>
      float32_value (x2 r) \<and> float32_value (y2 r) \<and>
      float32_value (x1 r + of_int x_offset) \<and> float32_value (y1 r + of_int y_offset) \<and>
      float32_value (x2 r + of_int x_offset) \<and> float32_value (y2 r + of_int y_offset))"

definition adjust_detection_coordinates :: "'t results \<Rightarrow> int \<Rightarrow> int \<Rightarrow> 't results" where
  "adjust_detection_coordinates results x_offset y_offset =
     (case boxes results of
        None \<Rightarrow> results
      | Some data \<Rightarrow>
          if length data = 0 then results
          else results\<lparr>boxes := Some (map (adjust_row x_offset y_offset) data)\<rparr>)"

subsection \<open>\<open>_filter_detections_by_class\<close>\<close>

text \<open>\<open>np.isin(classes, allowed_classes)\<close>, element by element.\<close>

definition isin :: "real \<Rightarrow> int list \<Rightarrow> bool" where
  "isin c allowed_classes = (c \<in> set (map real_of_int allowed_classes))"

text \<open>Boolean-mask indexing \<open>data[mask_tensor]\<close>: the rows whose mask entry is true.\<close>

definition select_rows :: "'a list \<Rightarrow> bool list \<Rightarrow> 'a list" where
  "select_rows data mask_tensor = map fst (filter snd (zip data mask_tensor))"

definition filter_detections_by_class :: "'t results \<Rightarrow> int list \<Rightarrow> 't results" where
  "filter_detections_by_class results allowed_classes =
     (case boxes results of
        None \<Rightarrow> results
      | Some data \<Rightarrow>
          if length data = 0 then results
          else
            (let classes = map cls data;
                 mask_tensor = map (\<lambda>c. isin c allowed_classes) classes
             in if length (filter (\<lambda>b. b) mask_tensor) = 0
                then results\<lparr>boxes := None\<rparr>
                else results\<lparr>boxes := Some (select_rows data mask_tensor)\<rparr>))"

subsection \<open>\<open>_merge_detections\<close>\<close>

definition merge_detections :: "'t results \<Rightarrow> 't results \<Rightarrow> 't results" where
  "merge_detections results1 results2 =
     (case boxes results1 of
        None \<Rightarrow> results2
      | Some data1 \<Rightarrow>
          if length data1 = 0 then results2
          else
            (case boxes results2 of
               None \<Rightarrow> results1
             | Some data2 \<Rightarrow>
                 if length data2 = 0 then results1
                 else results1\<lparr>boxes := Some (data1 @ data2)\<rparr>))"

section \<open>Numbers and strings of the host language\<close>

text \<open>\<open>int(x)\<close> on a float truncates toward zero.\<close>

definition py_int :: "real \<Rightarrow> int" where
  "py_int x = (if x < 0 then \<lceil>x\<rceil> else \<lfloor>x\<rfloor>)"

text \<open>
  \<open>round(x, ndigits)\<close> on a float: the exact value of \<open>x\<close> is rounded to the nearest
  multiple of \<open>10 ** -ndigits\<close>, a value half way between two of them going to the one
  whose last digit is even, and the result is the 64-bit float nearest to that decimal.
\<close>

definition decimal_round :: "real \<Rightarrow> nat \<Rightarrow> real" where
  "decimal_round x ndigits = of_int (round_half_even (x * 10 ^ ndigits)) / 10 ^ ndigits"

definition py_round :: "real \<Rightarrow> nat \<Rightarrow> real" where
  "py_round x ndigits = float64 (decimal_round x ndigits)"

text \<open>Decimal formatting of an integer inside an f-string.\<close>

definition digit_char :: "nat \<Rightarrow> char" where
  "digit_char d = char_of (48 + d)"

fun str_nat :: "nat \<Rightarrow> string" where
  "str_nat n = (if n < 10 then [digit_char n] else str_nat (n div 10) @ [digit_char (n mod 10)])"

declare str_nat.simps [simp del]

definition str_int :: "int \<Rightarrow> string" where
  "str_int i = (if i < 0 then CHR ''-'' # str_nat (nat (- i)) else str_nat (nat i))"

text \<open>
  A dictionary keeps its keys in insertion order: \<open>d.get(k, dflt)\<close> and \<open>d[k] = v\<close>,
  which overwrites the entry of \<open>k\<close> in place or appends a new one.
\<close>

definition dict_get :: "('k \<times> 'v) list \<Rightarrow> 'k \<Rightarrow> 'v \<Rightarrow> 'v" where
  "dict_get d k dflt = (case map_of d k of None \<Rightarrow> dflt | Some v \<Rightarrow> v)"

fun dict_set :: "('k \<times> 'v) list \<Rightarrow> 'k \<Rightarrow> 'v \<Rightarrow> ('k \<times> 'v) list" where
  "dict_set [] k v = [(k, v)]"
| "dict_set ((k', v') # d) k v = (if k' = k then (k, v) # d else (k', v') # dict_set d k v)"

section \<open>Images and the corner crop\<close>

text \<open>
  An image has a size and a pixel at every position inside it; \<open>Image.crop\<close> takes the
  box \<open>(left, upper, right, lower)\<close>, refuses a box whose right or lower edge lies before
  its left or upper edge, and fills what lies outside the source with zero.
\<close>

record 'p image =
  width :: nat
  height :: nat
  pixel :: "int \<Rightarrow> int \<Rightarrow> 'p"

datatype error = ValueError

definition crop :: "'p::zero image \<Rightarrow> int \<times> int \<times> int \<times> int \<Rightarrow> error + 'p image" where
  "crop im box =
     (case box of (left, upper, right, lower) \<Rightarrow>
        if right < left then Inl ValueError
        else if lower < upper then Inl ValueError
        else Inr \<lparr>width = nat (right - left),
                  height = nat (lower - upper),
                  pixel = (\<lambda>x y.
                    if 0 \<le> x + left \<and> x + left < int (width im) \<and>
                       0 \<le> y + upper \<and> y + upper < int (height im)
                    then pixel im (x + left) (y + upper) else 0)\<rparr>)"

subsection \<open>\<open>_extract_bottom_right_corner\<close>\<close>

text \<open>
  The default \<open>corner_size\<close> is the literal \<open>0.10\<close>, a 64-bit float.  \<open>width * corner_size\<close>
  multiplies an integer, which converts to a 64-bit float as it is for every size an
  image can have, by a 64-bit float: the product is rounded, and \<open>int\<close> truncates the
  rounded product.
\<close>

definition default_corner_size :: real where
  "default_corner_size = float64 (10 / 100)"

definition extract_bottom_right_corner ::
  "'p::zero image \<Rightarrow> real \<Rightarrow> error + ('p image \<times> (int \<times> int))" where
  "extract_bottom_right_corner im corner_size =
     (let corner_width = py_int (float64 (real (width im) * corner_size));
          corner_height = py_int (float64 (real (height im) * corner_size));
          x_offset = int (width im) - corner_width;
          y_offset = int (height im) - corner_height
      in case crop im (x_offset, y_offset, int (width im), int (height im)) of
           Inl e \<Rightarrow> Inl e
         | Inr corner_image \<Rightarrow> Inr (corner_image, (x_offset, y_offset)))"

section \<open>Preprocessing\<close>

text \<open>
  The OpenCV operations are collaborators: each takes an image in OpenCV format and
  either returns one or raises, which is the value \<open>Inl\<close> with the text of the exception.
  \<open>from_pil\<close> is \<open>cv2.cvtColor(np.array(image), cv2.COLOR_RGB2BGR)\<close>, \<open>clahe\<close> the
  equalisation of the L channel, \<open>bilateralFilter\<close> the denoising, \<open>adaptiveThreshold\<close>
  the binarisation with its conversions, \<open>filter2D\<close> the sharpening and \<open>to_pil\<close> the
  conversion back to an RGB image.
\<close>

record ('p, 'c) opencv =
  from_pil :: "'p image \<Rightarrow> string + 'c"
  clahe :: "'c \<Rightarrow> string + 'c"
  bilateralFilter :: "'c \<Rightarrow> string + 'c"
  adaptiveThreshold :: "'c \<Rightarrow> string + 'c"
  filter2D :: "'c \<Rightarrow> string + 'c"
  to_pil :: "'c \<Rightarrow> string + 'p image"

record preprocessing_info =
  applied :: "string list"
  original_size :: "nat \<times> nat"
  techniques_count :: "nat option"

text \<open>
  One stage of the second \<open>try\<close> block: when enabled it transforms the image and then
  appends its name to \<open>preprocessing_info['applied']\<close>.  An exception leaves the list as
  it was at that point, which the handler then reads.
\<close>

definition stage ::
  "bool \<Rightarrow> ('c \<Rightarrow> string + 'c) \<Rightarrow> string \<Rightarrow> 'c \<times> string list \<Rightarrow>
     (string \<times> string list) + ('c \<times> string list)" where
  "stage enabled operation name s =
     (case s of (img_cv, applied_list) \<Rightarrow>
        if \<not> enabled then Inr (img_cv, applied_list)
        else (case operation img_cv of
                Inl e \<Rightarrow> Inl (e, applied_list)
              | Inr img_cv' \<Rightarrow> Inr (img_cv', applied_list @ [name])))"

definition try_bind :: "'e + 'a \<Rightarrow> ('a \<Rightarrow> 'e + 'b) \<Rightarrow> 'e + 'b" where
  "try_bind m f = (case m of Inl e \<Rightarrow> Inl e | Inr a \<Rightarrow> f a)"

definition enhance ::
  "('p, 'c) opencv \<Rightarrow> 'c \<Rightarrow> bool \<Rightarrow> bool \<Rightarrow> bool \<Rightarrow> string list \<Rightarrow>
     (string \<times> string list) + ('p image \<times> string list)" where
  "enhance cv2 img_cv use_clahe use_denoise use_threshold applied_list =
     try_bind (stage use_clahe (clahe cv2) ''CLAHE (contrast enhancement)'' (img_cv, applied_list))
       (\<lambda>s1. try_bind (stage use_denoise (bilateralFilter cv2)
                          ''Denoising (bilateral filter - fast)'' s1)
       (\<lambda>s2. try_bind (stage use_threshold (adaptiveThreshold cv2)
                          ''Thresholding (binarization)'' s2)
       (\<lambda>s3. try_bind (stage (length (snd s3) > 0) (filter2D cv2) ''Sharpening'' s3)
       (\<lambda>s4. case to_pil cv2 (fst s4) of
                 Inl e \<Rightarrow> Inl (e, snd s4)
               | Inr processed_image \<Rightarrow> Inr (processed_image, snd s4)))))"

definition preprocess_image ::
  "bool \<Rightarrow> ('p, 'c) opencv \<Rightarrow> 'p image \<Rightarrow> bool \<Rightarrow> bool \<Rightarrow> bool \<Rightarrow>
     'p image \<times> preprocessing_info" where
  "preprocess_image HAS_OPENCV cv2 im use_clahe use_denoise use_threshold =
     (let info = \<lparr>applied = [], original_size = (width im, height im),
                  techniques_count = None\<rparr>
      in if \<not> HAS_OPENCV
         then (im, info\<lparr>applied := applied info @
                 [''Preprocessing unavailable (OpenCV not installed)'']\<rparr>)
         else if \<not> (use_clahe \<or> use_denoise \<or> use_threshold) then (im, info)
         else
           (case from_pil cv2 im of
              Inl e \<Rightarrow> (im, info\<lparr>applied := applied info @ [''Error: '' @ e]\<rparr>)
            | Inr img_cv \<Rightarrow>
                (case enhance cv2 img_cv use_clahe use_denoise use_threshold (applied info) of
                   Inl (e, applied_list) \<Rightarrow>
                     (im, info\<lparr>applied := applied_list @ [''Error during preprocessing: '' @ e]\<rparr>)
                 | Inr (processed_image, applied_list) \<Rightarrow>
                     (processed_image,
                      info\<lparr>applied := applied_list,
                           techniques_count := Some (length applied_list)\<rparr>))))"

section \<open>The processor and the detection passes\<close>

text \<open>
  A \<open>PDFProcessor\<close> holds the loaded model: \<open>predict\<close> is \<open>self.model.predict\<close> with its
  confidence, IoU and maximum-detections arguments, \<open>class_names\<close> is \<open>self.model.names\<close>.
  \<open>has_opencv\<close> is the module flag \<open>HAS_OPENCV\<close>, \<open>cv\<close> the OpenCV operations, and
  \<open>draw\<close> is what \<open>draw_detections\<close> paints onto an image.

  The model is an object that lives across invocations, so an invocation of the
  predictor takes the state of the model and returns the new state with the results:
  what the pipeline does with the model is then visible in the state it leaves.  The
  predictor returns a result for every image, as its contract says; an exception of the
  predictor or of the PDF library, which \<open>process_pdf\<close> does not catch, is outside this
  model.
\<close>

record ('p, 'c, 't, 's) processor =
  predict :: "'s \<Rightarrow> 'p image \<Rightarrow> real \<Rightarrow> real \<Rightarrow> int \<Rightarrow> 't results \<times> 's"
  class_names :: "int \<Rightarrow> string option"
  has_opencv :: bool
  cv :: "('p, 'c) opencv"
  draw :: "'p image \<Rightarrow> 't results \<Rightarrow> 'p image"

text \<open>The arguments of \<open>process_pdf\<close> besides the document.\<close>

record args =
  output_path :: string
  pdf_filename :: string
  conf_threshold :: real
  iou_threshold :: real
  max_detections :: int
  use_clahe :: bool
  use_denoise :: bool
  use_threshold :: bool
  preprocessing_viz_path :: "string option"

subsection \<open>\<open>_detect_on_bottom_right_corner\<close>\<close>

text \<open>
  Besides the results, the functions of this section return the state of the model
  after their invocations of the predictor.
\<close>

definition detect_on_bottom_right_corner ::
  "('p::zero, 'c, 't, 's) processor \<Rightarrow> 's \<Rightarrow> 'p image \<Rightarrow> real \<Rightarrow> real \<Rightarrow> int \<Rightarrow> real \<Rightarrow>
     error + ('t results \<times> 's)" where
  "detect_on_bottom_right_corner self s im conf_thr iou_thr max_det corner_size =
     (case extract_bottom_right_corner im corner_size of
        Inl e \<Rightarrow> Inl e
      | Inr (corner_image, (x_offset, y_offset)) \<Rightarrow>
          (case predict self s corner_image conf_thr iou_thr max_det of
             (corner_results, s') \<Rightarrow>
               (let qr_results = filter_detections_by_class corner_results [2];
                    adjusted =
                      (if \<not> boxes_empty qr_results
                       then adjust_detection_coordinates qr_results x_offset y_offset
                       else qr_results)
                in Inr (adjusted, s'))))"

subsection \<open>The detection of one page\<close>

definition two_pass_mode :: "args \<Rightarrow> bool" where
  "two_pass_mode a = (use_denoise a \<or> use_threshold a)"

record ('p, 't, 's) page_detection =
  pd_results :: "'t results"
  pd_model :: 's
  pd_preprocessed :: "('p image \<times> preprocessing_info) option"

definition detect_page ::
  "('p::zero, 'c, 't, 's) processor \<Rightarrow> args \<Rightarrow> 's \<Rightarrow> 'p image \<Rightarrow>
     error + ('p, 't, 's) page_detection" where
  "detect_page self a s original_image =
     (if two_pass_mode a then
        (case predict self s original_image
                (conf_threshold a) (iou_threshold a) (max_detections a) of
           (results_pass1, s1) \<Rightarrow>
             (let pre = preprocess_image (has_opencv self) (cv self) original_image
                          (use_clahe a) (use_denoise a) (use_threshold a)
              in case detect_on_bottom_right_corner self s1 (fst pre)
                        (conf_threshold a) (iou_threshold a) (max_detections a)
                        default_corner_size of
                   Inl e \<Rightarrow> Inl e
                 | Inr (results_pass2, s2) \<Rightarrow>
                     Inr \<lparr>pd_results = merge_detections results_pass1 results_pass2,
                          pd_model = s2,
                          pd_preprocessed = Some pre\<rparr>))
      else
        (let pre = (if use_clahe a
                    then Some (preprocess_image (has_opencv self) (cv self) original_image
                                 (use_clahe a) False False)
                    else None);
             image_to_detect =
               (case pre of Some (processed_image, _) \<Rightarrow> processed_image
                | None \<Rightarrow> original_image)
         in case predict self s image_to_detect
                   (conf_threshold a) (iou_threshold a) (max_detections a) of
              (results, s1) \<Rightarrow>
                Inr \<lparr>pd_results = results, pd_model = s1, pd_preprocessed = pre\<rparr>))"

text \<open>
  A predictor that computes its results from the image and keeps as its state the list
  of the images it was invoked on, in the order of the invocations.
\<close>

definition recording ::
  "('p image \<Rightarrow> real \<Rightarrow> real \<Rightarrow> int \<Rightarrow> 't results) \<Rightarrow>
     'p image list \<Rightarrow> 'p image \<Rightarrow> real \<Rightarrow> real \<Rightarrow> int \<Rightarrow> 't results \<times> 'p image list" where
  "recording f invoked im conf_thr iou_thr max_det =
     (f im conf_thr iou_thr max_det, invoked @ [im])"

section \<open>Annotations and the report\<close>

definition scale_factor :: real where
  "scale_factor = 2"

definition category_map :: "(int \<times> string) list" where
  "category_map = [(0, ''signature''), (1, ''stamp''), (2, ''qr'')]"

record bbox =
  bbox_x :: real
  bbox_y :: real
  bbox_width :: real
  bbox_height :: real

record annotation =
  category :: string
  bbox :: bbox
  area :: real

text \<open>
  The conversion of one box from the pixels of the scaled image to the document, as the
  loop over the boxes of a page computes it.  \<open>x1\<close>, \<open>y1\<close>, \<open>x2\<close>, \<open>y2\<close> are 32-bit NumPy
  scalars: the differences \<open>x2 - x1\<close> and \<open>y2 - y1\<close> are 32-bit subtractions, \<open>float\<close>
  converts to 64 bits as it is, and the divisions and the product are 64-bit operations.
\<close>

definition annotate :: "string \<Rightarrow> 't row \<Rightarrow> annotation" where
  "annotate cat r =
     (let x = float64 (x1 r / scale_factor);
          y = float64 (y1 r / scale_factor);
          w = float64 (float32 (x2 r - x1 r) / scale_factor);
          h = float64 (float32 (y2 r - y1 r) / scale_factor);
          ar = float64 (w * h)
      in \<lparr>category = cat,
          bbox = \<lparr>bbox_x = py_round x 2, bbox_y = py_round y 2,
                  bbox_width = py_round w 2, bbox_height = py_round h 2\<rparr>,
          area = py_round ar 3\<rparr>)"

text \<open>
  The loop \<open>for i in range(page_detections)\<close>, over the rows of the tensor.  Its
  variables are the annotation counter, the class counts of the page, the class counts of
  the document and the annotations of the page.
\<close>

fun annotate_boxes ::
  "(int \<Rightarrow> string option) \<Rightarrow> 't row list \<Rightarrow>
     nat \<times> (string \<times> nat) list \<times> (string \<times> nat) list \<times> (string \<times> annotation) list \<Rightarrow>
     nat \<times> (string \<times> nat) list \<times> (string \<times> nat) list \<times> (string \<times> annotation) list" where
  "annotate_boxes names [] acc = acc"
| "annotate_boxes names (r # rs) (counter, page_classes, per_class, page_annotations) =
     (let cls_id = py_int (cls r);
          cls_name = (case names cls_id of Some n \<Rightarrow> n | None \<Rightarrow> ''class_'' @ str_int cls_id);
          cat = dict_get category_map cls_id (''class_'' @ str_int cls_id);
          annotation_id = ''annotation_'' @ str_nat counter
      in annotate_boxes names rs
           (counter + 1,
            dict_set page_classes cls_name (dict_get page_classes cls_name 0 + 1),
            dict_set per_class cls_name (dict_get per_class cls_name 0 + 1),
            page_annotations @ [(annotation_id, annotate cat r)]))"

record page_entry =
  annotations :: "(string \<times> annotation) list"
  page_size :: "int \<times> int"

record page_stat =
  stat_page :: nat
  stat_detections :: nat
  stat_classes :: "(string \<times> nat) list"

text \<open>
  A page of the source document: its rectangle in points and its rendering at a scale.
  A page of the comparison document records what \<open>_create_preprocessing_comparison\<close>
  was given.
\<close>

record 'p page =
  rect_width :: real
  rect_height :: real
  pixmap :: "real \<Rightarrow> 'p image"

definition page_to_pil :: "'p page \<Rightarrow> real \<Rightarrow> 'p image" where
  "page_to_pil pg scale = pixmap pg scale"

record 'p comparison =
  cmp_original :: "'p image"
  cmp_processed :: "'p image"
  cmp_applied :: "string list"
  cmp_page_num :: nat

text \<open>
  The variables of the page loop of \<open>process_pdf\<close>, and the state of the model.
\<close>

record ('p, 's) state =
  total_detections :: nat
  detections_per_class :: "(string \<times> nat) list"
  page_stats :: "page_stat list"
  preprocessing_applied :: "string list"
  annotations_output :: "(string \<times> page_entry) list"
  annotation_counter :: nat
  output_doc :: "'p image list"
  preprocessing_viz_doc :: "'p comparison list option"
  model :: 's

definition process_page ::
  "('p::zero, 'c, 't, 's) processor \<Rightarrow> args \<Rightarrow> 'p page \<Rightarrow> nat \<Rightarrow> ('p, 's) state \<Rightarrow>
     error + ('p, 's) state" where
  "process_page self a pg page_number st =
     (let original_image = page_to_pil pg 2
      in case detect_page self a (model st) original_image of
           Inl e \<Rightarrow> Inl e
         | Inr d \<Rightarrow>
             (let st1 =
                    (case pd_preprocessed d of
                       None \<Rightarrow> st
                     | Some (processed_image, preprocess_info) \<Rightarrow>
                         st\<lparr>preprocessing_applied :=
                              (if page_number = 0 then applied preprocess_info
                               else preprocessing_applied st),
                            preprocessing_viz_doc :=
                              (case preprocessing_viz_doc st of
                                 None \<Rightarrow> None
                               | Some viz \<Rightarrow>
                                   Some (viz @ [\<lparr>cmp_original = original_image,
                                                 cmp_processed = processed_image,
                                                 cmp_applied = applied preprocess_info,
                                                 cmp_page_num = page_number + 1\<rparr>]))\<rparr>);
                  results = pd_results d;
                  data = (case boxes results of None \<Rightarrow> [] | Some data \<Rightarrow> data);
                  page_detections = length data;
                  looped = annotate_boxes (class_names self) data
                             (annotation_counter st1, [], detections_per_class st1, []);
                  page_key = ''page_'' @ str_nat (page_number + 1);
                  annotated_image = draw self original_image results
              in Inr (st1\<lparr>total_detections := total_detections st1 + page_detections,
                          detections_per_class := fst (snd (snd looped)),
                          page_stats := page_stats st1 @
                            [\<lparr>stat_page = page_number + 1, stat_detections = page_detections,
                              stat_classes = fst (snd looped)\<rparr>],
                          annotations_output :=
                            dict_set (annotations_output st1) page_key
                              \<lparr>annotations = snd (snd (snd looped)),
                               page_size = (py_int (rect_width pg), py_int (rect_height pg))\<rparr>,
                          annotation_counter := fst looped,
                          output_doc := output_doc st1 @ [annotated_image],
                          model := pd_model d\<rparr>)))"

fun process_pages ::
  "('p::zero, 'c, 't, 's) processor \<Rightarrow> args \<Rightarrow> 'p page list \<Rightarrow> nat \<Rightarrow> ('p, 's) state \<Rightarrow>
     error + ('p, 's) state" where
  "process_pages self a [] page_number st = Inr st"
| "process_pages self a (pg # pages) page_number st =
     (case process_page self a pg page_number st of
        Inl e \<Rightarrow> Inl e
      | Inr st' \<Rightarrow> process_pages self a pages (page_number + 1) st')"

record report =
  rep_annotations :: "(string \<times> (string \<times> page_entry) list) list"
  rep_total_pages :: nat
  rep_total_detections :: nat
  rep_detections_per_class :: "(string \<times> nat) list"
  rep_page_stats :: "page_stat list"
  rep_model_classes :: "int \<Rightarrow> string option"
  rep_preprocessing_enabled :: bool
  rep_two_pass_mode :: bool
  rep_techniques :: "string list"
  rep_confidence :: real
  rep_iou :: real
  rep_max_detections :: int

definition initial_state :: "args \<Rightarrow> 's \<Rightarrow> ('p, 's) state" where
  "initial_state a s =
     \<lparr>total_detections = 0, detections_per_class = [], page_stats = [],
      preprocessing_applied = [], annotations_output = [], annotation_counter = 1,
      output_doc = [],
      preprocessing_viz_doc =
        (if (use_clahe a \<or> use_denoise a \<or> use_threshold a) \<and> preprocessing_viz_path a \<noteq> None
         then Some [] else None),
      model = s\<rparr>"

text \<open>
  \<open>process_pdf\<close> on an opened document, the list of its pages, with the model in the
  state \<open>s\<close>.  It returns the report together with the final state of the loop, which
  holds the pages of the output document and of the comparison document as they are
  saved, and the state in which the model is left.
\<close>

definition process_pdf ::
  "('p::zero, 'c, 't, 's) processor \<Rightarrow> 's \<Rightarrow> 'p page list \<Rightarrow> args \<Rightarrow>
     error + (report \<times> ('p, 's) state)" where
  "process_pdf self s source_doc a =
     (let total_pages = length source_doc
      in case process_pages self a source_doc 0 (initial_state a s) of
           Inl e \<Rightarrow> Inl e
         | Inr st \<Rightarrow>
             Inr (\<lparr>rep_annotations = [(pdf_filename a, annotations_output st)],
                   rep_total_pages = total_pages,
                   rep_total_detections = total_detections st,
                   rep_detections_per_class = detections_per_class st,
                   rep_page_stats = page_stats st,
                   rep_model_classes = class_names self,
                   rep_preprocessing_enabled = (use_clahe a \<or> use_denoise a \<or> use_threshold a),
                   rep_two_pass_mode = two_pass_mode a,
                   rep_techniques = preprocessing_applied st,
                   rep_confidence = conf_threshold a,
                   rep_iou = iou_threshold a,
                   rep_max_detections = max_detections a\<rparr>, st))"

section \<open>Reading the report\<close>

text \<open>
  The number a decimal string denotes, which recovers \<open>n\<close> from \<open>str_nat n\<close>: distinct
  numbers are formatted differently.
\<close>

definition nat_of_digits :: "string \<Rightarrow> nat" where
  "nat_of_digits s = foldl (\<lambda>acc c. 10 * acc + (of_char c - 48)) 0 s"

text \<open>The annotation records of a report: those of every page of every file, in order.\<close>

definition annotation_records :: "report \<Rightarrow> (string \<times> annotation) list" where
  "annotation_records rep =
     concat (map (\<lambda>entry. annotations (snd entry)) (concat (map snd (rep_annotations rep))))"

text \<open>
  What holds of the variables of the page loop before the page with index \<open>n\<close> (counted
  from 0) is processed.
\<close>

definition loop_invariant :: "nat \<Rightarrow> ('p, 's) state \<Rightarrow> bool" where
  "loop_invariant n st =
     (total_detections st = sum_list (map stat_detections (page_stats st)) \<and>
      total_detections st = sum_list (map snd (detections_per_class st)) \<and>
      annotation_counter st = total_detections st + 1 \<and>
      map fst (concat (map (\<lambda>entry. annotations (snd entry)) (annotations_output st))) =
        map (\<lambda>k. ''annotation_'' @ str_nat k) [1..<total_detections st + 1] \<and>
      map fst (annotations_output st) = map (\<lambda>k. ''page_'' @ str_nat k) [1..<n + 1] \<and>
      map (\<lambda>entry. length (annotations (snd entry))) (annotations_output st) =
        map stat_detections (page_stats st) \<and>
      map stat_page (page_stats st) = [1..<n + 1] \<and>
      length (output_doc st) = n)"

section \<open>Concrete inputs\<close>

text \<open>
  Detections in the six-column format and one in the seven-column format, and results
  built from them, for the closed instances of the theorems below.  \<open>tenth_row\<close> has as
  its left edge the 32-bit float nearest to 0.1.
\<close>

definition signature_row_1 :: "unit row" where
  "signature_row_1 =
     \<lparr>x1 = 100, y1 = 200, x2 = 300, y2 = 260, track_id = (), conf = 9 / 10, cls = 0\<rparr>"

definition signature_row_2 :: "unit row" where
  "signature_row_2 =
     \<lparr>x1 = 400, y1 = 900, x2 = 640, y2 = 980, track_id = (), conf = 3 / 4, cls = 0\<rparr>"

definition qr_row :: "unit row" where
  "qr_row = \<lparr>x1 = 12, y1 = 20, x2 = 52, y2 = 60, track_id = (), conf = 4 / 5, cls = 2\<rparr>"

definition stamp_row :: "unit row" where
  "stamp_row = \<lparr>x1 = 60, y1 = 70, x2 = 110, y2 = 120, track_id = (), conf = 7 / 10, cls = 1\<rparr>"

definition tenth_row :: "unit row" where
  "tenth_row =
     \<lparr>x1 = 13421773 / 134217728, y1 = 20, x2 = 52, y2 = 60, track_id = (),
      conf = 4 / 5, cls = 2\<rparr>"

definition tracked_row :: "real row" where
  "tracked_row =
     \<lparr>x1 = 5 / 2, y1 = 7, x2 = 40, y2 = 33, track_id = 17, conf = 1 / 2, cls = 1\<rparr>"

definition no_results :: "unit results" where
  "no_results = \<lparr>boxes = None, orig_shape = (1684, 1190)\<rparr>"

definition results_of :: "'t row list \<Rightarrow> 't results" where
  "results_of data = \<lparr>boxes = Some data, orig_shape = (1684, 1190)\<rparr>"

text \<open>The class ids of \<open>category_map\<close>: signature, stamp and QR code.\<close>

definition known_classes :: "int list" where
  "known_classes = map fst category_map"

section \<open>Properties of the floating-point model\<close>

text \<open>The definitions that evaluate the rounding of a numeral.\<close>

lemmas float_eval = float32_def float64_def round_to_precision_def exponent_of_def pow2_def
  round_half_even_def bit_length.simps Let_def

lemma pow2_pos: "0 < pow2 e"
  by (simp add: pow2_def)

lemma round_half_even_nonneg: "0 \<le> x \<Longrightarrow> 0 \<le> round_half_even x"
  by (simp add: round_half_even_def Let_def)

lemma round_to_precision_nonneg: "0 \<le> x \<Longrightarrow> 0 \<le> round_to_precision p x"
proof -
  assume x: "0 \<le> x"
  have "0 \<le> x / pow2 e" for e
    using x pow2_pos [of e] by simp
  then have "0 \<le> round_half_even (x / pow2 e)" for e
    by (rule round_half_even_nonneg)
  then show ?thesis
    using pow2_pos by (simp add: round_to_precision_def Let_def less_imp_le)
qed

lemma float64_nonneg: "0 \<le> x \<Longrightarrow> 0 \<le> float64 x"
  by (simp add: float64_def round_to_precision_nonneg)

lemma round_half_even_minus: "round_half_even (- x) = - round_half_even x"
proof (cases "x = of_int \<lfloor>x\<rfloor>")
  case True
  then obtain k :: int where k: "x = of_int k" by blast
  show ?thesis
    by (simp add: k round_half_even_def Let_def flip: of_int_minus)
next
  case False
  have "of_int \<lfloor>x\<rfloor> \<le> x" by (rule of_int_floor_le)
  with False have lo: "of_int \<lfloor>x\<rfloor> < x" by (metis order_le_less)
  have hi: "x < of_int \<lfloor>x\<rfloor> + 1" by linarith
  have f: "\<lfloor>- x\<rfloor> = - \<lfloor>x\<rfloor> - 1"
  proof (rule floor_unique)
    show "of_int (- \<lfloor>x\<rfloor> - 1) \<le> - x" by (simp, linarith)
    show "- x < of_int (- \<lfloor>x\<rfloor> - 1) + 1" using lo by simp
  qed
  show ?thesis
    using lo hi by (auto simp add: round_half_even_def Let_def f)
qed

lemma round_to_precision_minus: "round_to_precision p (- x) = - round_to_precision p x"
  by (simp add: round_to_precision_def Let_def exponent_of_def round_half_even_minus)

lemma float32_minus: "float32 (- x) = - float32 x"
  by (simp add: float32_def round_to_precision_minus)

lemma float32_value_minus: "float32_value x \<Longrightarrow> float32_value (- x)"
  by (simp add: float32_value_def float32_minus)

section \<open>Properties of the detection results\<close>

lemma select_rows_isin:
  "select_rows data (map (\<lambda>c. isin c allowed_classes) (map cls data)) =
     filter (\<lambda>r. isin (cls r) allowed_classes) data"
  by (induction data) (simp_all add: select_rows_def)

lemma mask_sum_isin:
  "(length (filter (\<lambda>b. b) (map (\<lambda>c. isin c allowed_classes) (map cls data))) = 0) =
     (filter (\<lambda>r. isin (cls r) allowed_classes) data = [])"
  by (simp add: filter_map comp_def)

lemma filter_detections_by_class_eq:
  "filter_detections_by_class results allowed_classes =
     (case boxes results of
        None \<Rightarrow> results
      | Some data \<Rightarrow>
          if length data = 0 then results
          else if filter (\<lambda>r. isin (cls r) allowed_classes) data = []
               then results\<lparr>boxes := None\<rparr>
               else results\<lparr>boxes := Some (filter (\<lambda>r. isin (cls r) allowed_classes) data)\<rparr>)"
  unfolding filter_detections_by_class_def Let_def mask_sum_isin select_rows_isin ..

lemma dets_filter:
  "dets (filter_detections_by_class results allowed_classes) =
     filter (\<lambda>r. isin (cls r) allowed_classes) (dets results)"
  by (simp add: filter_detections_by_class_eq dets_def split: option.splits)

lemma boxes_empty_dets: "boxes_empty results \<longleftrightarrow> dets results = []"
  by (simp add: boxes_empty_def dets_def split: option.splits)

lemma filter_all_allowed:
  assumes "\<forall>r \<in> set (dets results). isin (cls r) allowed_classes"
  shows "filter_detections_by_class results allowed_classes = results"
proof (cases "boxes results")
  case None
  then show ?thesis by (simp add: filter_detections_by_class_eq)
next
  case (Some data)
  from assms Some have "\<forall>r \<in> set data. isin (cls r) allowed_classes"
    by (simp add: dets_def)
  then have keep: "filter (\<lambda>r. isin (cls r) allowed_classes) data = data"
    by simp
  from Some show ?thesis
    by (simp add: filter_detections_by_class_eq keep)
qed

lemma dets_adjust:
  "dets (adjust_detection_coordinates results x_offset y_offset) =
     map (adjust_row x_offset y_offset) (dets results)"
  by (simp add: adjust_detection_coordinates_def dets_def split: option.splits)

lemma dets_merge:
  "dets (merge_detections results1 results2) = dets results1 @ dets results2"
  by (simp add: merge_detections_def dets_def split: option.splits)

lemma adjust_row_exact:
  assumes "translation_exact dx dy r"
  shows "adjust_row dx dy r =
    r\<lparr>x1 := x1 r + of_int dx, y1 := y1 r + of_int dy,
      x2 := x2 r + of_int dx, y2 := y2 r + of_int dy\<rparr>"
  using assms by (simp add: adjust_row_def translation_exact_def float32_value_def)

lemma adjust_row_round_trip:
  assumes "translation_exact dx dy r"
  shows "adjust_row (- dx) (- dy) (adjust_row dx dy r) = r"
proof -
  from assms have off: "float32 (of_int dx) = of_int dx" "float32 (of_int dy) = of_int dy"
    and c: "float32 (x1 r) = x1 r" "float32 (y1 r) = y1 r"
      "float32 (x2 r) = x2 r" "float32 (y2 r) = y2 r"
    and sums: "float32 (x1 r + of_int dx) = x1 r + of_int dx"
      "float32 (y1 r + of_int dy) = y1 r + of_int dy"
      "float32 (x2 r + of_int dx) = x2 r + of_int dx"
      "float32 (y2 r + of_int dy) = y2 r + of_int dy"
    by (simp_all add: translation_exact_def float32_value_def)
  from off have neg: "float32 (- of_int dx) = - of_int dx" "float32 (- of_int dy) = - of_int dy"
    by (simp_all add: float32_minus)
  show ?thesis
    by (simp add: adjust_row_def off c sums neg)
qed

lemma adjust_round_trip:
  assumes "\<forall>r \<in> set (dets results). translation_exact dx dy r"
  shows "adjust_detection_coordinates (adjust_detection_coordinates results dx dy) (- dx) (- dy) =
    results"
proof (cases "boxes results")
  case None
  then show ?thesis by (simp add: adjust_detection_coordinates_def)
next
  case (Some data)
  with assms have "\<forall>r \<in> set data. translation_exact dx dy r"
    by (simp add: dets_def)
  then have "map (adjust_row (- dx) (- dy) \<circ> adjust_row dx dy) data = data"
    by (simp add: adjust_row_round_trip map_idI)
  with Some show ?thesis
    by (simp add: adjust_detection_coordinates_def)
qed

lemma tenth_round_trip:
  "adjust_detection_coordinates
     (adjust_detection_coordinates (results_of [tenth_row]) 1071 1516) (- 1071) (- 1516) =
   results_of [tenth_row\<lparr>x1 := 819 / 8192\<rparr>]"
  by (simp add: adjust_detection_coordinates_def results_of_def tenth_row_def adjust_row_def
      float_eval)

section \<open>The claims about the detection results\<close>

text \<open>
  C2.  Merging two results: the detections of the merge are those of the first result
  followed by those of the second, each as it was and none removed.  When the first
  result has no boxes the second is returned as it is; when the second has none and the
  first has some, the first is returned as it is, and in both cases the detections are
  those of the other result.  When both have boxes the merge is the first result with
  the concatenated tensor, which has as many rows as both together.  Merging the outcome
  with a result \<open>E\<close> that has no boxes changes no detection, and returns the same object
  unless \<open>A\<close> and \<open>B\<close> were both without boxes, where it returns \<open>E\<close>, another result
  without boxes.
\<close>

theorem merge_detections_spec:
  "dets (merge_detections A B) = dets A @ dets B \<and>
   (boxes_empty A \<longrightarrow> merge_detections A B = B) \<and>
   (boxes_empty B \<and> \<not> boxes_empty A \<longrightarrow> merge_detections A B = A) \<and>
   (boxes_empty B \<longrightarrow> dets (merge_detections A B) = dets A) \<and>
   (\<not> boxes_empty A \<and> \<not> boxes_empty B \<longrightarrow>
      merge_detections A B = A\<lparr>boxes := Some (dets A @ dets B)\<rparr> \<and>
      length (dets (merge_detections A B)) = length (dets A) + length (dets B)) \<and>
   (boxes_empty E \<longrightarrow>
      dets (merge_detections (merge_detections A B) E) = dets (merge_detections A B)) \<and>
   (boxes_empty E \<and> \<not> (boxes_empty A \<and> boxes_empty B) \<longrightarrow>
      merge_detections (merge_detections A B) E = merge_detections A B)"
  by (auto simp add: merge_detections_def dets_def boxes_empty_def split: option.splits)

theorem merge_detections_spec_witness:
  "merge_detections no_results (results_of [qr_row]) = results_of [qr_row] \<and>
   merge_detections (results_of [qr_row]) no_results = results_of [qr_row] \<and>
   dets (merge_detections (results_of [signature_row_1, signature_row_2]) (results_of [qr_row])) =
     [signature_row_1, signature_row_2, qr_row] \<and>
   length (dets (merge_detections (results_of [signature_row_1, signature_row_2])
     (results_of [qr_row]))) = 3 \<and>
   merge_detections
     (merge_detections (results_of [signature_row_1, signature_row_2]) (results_of [qr_row]))
     (results_of []) =
   merge_detections (results_of [signature_row_1, signature_row_2]) (results_of [qr_row])"
  using merge_detections_spec [of no_results "results_of [qr_row]" no_results]
    merge_detections_spec [of "results_of [qr_row]" no_results no_results]
    merge_detections_spec [of "results_of [signature_row_1, signature_row_2]"
      "results_of [qr_row]" "results_of []"]
  by (simp add: merge_detections_def boxes_empty_def dets_def results_of_def no_results_def)

text \<open>
  C4.  Translating a result by \<open>(dx, dy)\<close> replaces \<open>x1\<close> and \<open>x2\<close> of every row by their
  32-bit sums with \<open>dx\<close>, and \<open>y1\<close> and \<open>y2\<close> by their 32-bit sums with \<open>dy\<close>, and leaves
  the confidence, the class and the tracking column of the row, and the shape recorded
  in the result, as they were.  A result without boxes is returned as it is.  Where the
  translation of a row is exact, the sums are the exact sums and translating the row
  back by \<open>(- dx, - dy)\<close> gives the row back; a result of which every row translates
  exactly is given back by translating by \<open>(dx, dy)\<close> and then by \<open>(- dx, - dy)\<close>.
\<close>

theorem adjust_detection_coordinates_spec:
  "dets (adjust_detection_coordinates R dx dy) = map (adjust_row dx dy) (dets R) \<and>
   orig_shape (adjust_detection_coordinates R dx dy) = orig_shape R \<and>
   x1 (adjust_row dx dy r) = float32 (x1 r + float32 (of_int dx)) \<and>
   y1 (adjust_row dx dy r) = float32 (y1 r + float32 (of_int dy)) \<and>
   x2 (adjust_row dx dy r) = float32 (x2 r + float32 (of_int dx)) \<and>
   y2 (adjust_row dx dy r) = float32 (y2 r + float32 (of_int dy)) \<and>
   conf (adjust_row dx dy r) = conf r \<and>
   cls (adjust_row dx dy r) = cls r \<and>
   track_id (adjust_row dx dy r) = track_id r \<and>
   (translation_exact dx dy r \<longrightarrow>
      x1 (adjust_row dx dy r) = x1 r + of_int dx \<and>
      y1 (adjust_row dx dy r) = y1 r + of_int dy \<and>
      x2 (adjust_row dx dy r) = x2 r + of_int dx \<and>
      y2 (adjust_row dx dy r) = y2 r + of_int dy \<and>
      adjust_row (- dx) (- dy) (adjust_row dx dy r) = r) \<and>
   ((\<forall>r \<in> set (dets R). translation_exact dx dy r) \<longrightarrow>
      adjust_detection_coordinates (adjust_detection_coordinates R dx dy) (- dx) (- dy) = R) \<and>
   (boxes_empty R \<longrightarrow> adjust_detection_coordinates R dx dy = R)"
proof -
  have shape: "orig_shape (adjust_detection_coordinates R dx dy) = orig_shape R"
    by (simp add: adjust_detection_coordinates_def split: option.splits)
  have empty: "boxes_empty R \<longrightarrow> adjust_detection_coordinates R dx dy = R"
    by (simp add: adjust_detection_coordinates_def boxes_empty_def split: option.splits)
  have fields: "x1 (adjust_row dx dy r) = float32 (x1 r + float32 (of_int dx)) \<and>
   y1 (adjust_row dx dy r) = float32 (y1 r + float32 (of_int dy)) \<and>
   x2 (adjust_row dx dy r) = float32 (x2 r + float32 (of_int dx)) \<and>
   y2 (adjust_row dx dy r) = float32 (y2 r + float32 (of_int dy)) \<and>
   conf (adjust_row dx dy r) = conf r \<and>
   cls (adjust_row dx dy r) = cls r \<and>
   track_id (adjust_row dx dy r) = track_id r"
    by (simp add: adjust_row_def)
  have exact: "translation_exact dx dy r \<longrightarrow>
      x1 (adjust_row dx dy r) = x1 r + of_int dx \<and>
      y1 (adjust_row dx dy r) = y1 r + of_int dy \<and>
      x2 (adjust_row dx dy r) = x2 r + of_int dx \<and>
      y2 (adjust_row dx dy r) = y2 r + of_int dy \<and>
      adjust_row (- dx) (- dy) (adjust_row dx dy r) = r"
  proof
    assume t: "translation_exact dx dy r"
    have e: "adjust_row dx dy r =
        r\<lparr>x1 := x1 r + of_int dx, y1 := y1 r + of_int dy,
          x2 := x2 r + of_int dx, y2 := y2 r + of_int dy\<rparr>"
      by (rule adjust_row_exact [OF t])
    have "x1 (adjust_row dx dy r) = x1 r + of_int dx"
      "y1 (adjust_row dx dy r) = y1 r + of_int dy"
      "x2 (adjust_row dx dy r) = x2 r + of_int dx"
      "y2 (adjust_row dx dy r) = y2 r + of_int dy"
      by (simp_all add: e)
    with adjust_row_round_trip [OF t]
    show "x1 (adjust_row dx dy r) = x1 r + of_int dx \<and>
      y1 (adjust_row dx dy r) = y1 r + of_int dy \<and>
      x2 (adjust_row dx dy r) = x2 r + of_int dx \<and>
      y2 (adjust_row dx dy r) = y2 r + of_int dy \<and>
      adjust_row (- dx) (- dy) (adjust_row dx dy r) = r"
      by blast
  qed
  have trip: "(\<forall>r \<in> set (dets R). translation_exact dx dy r) \<longrightarrow>
      adjust_detection_coordinates (adjust_detection_coordinates R dx dy) (- dx) (- dy) = R"
    by (simp add: adjust_round_trip)
  from shape empty fields exact trip dets_adjust [of R dx dy] show ?thesis
    by simp
qed

theorem adjust_detection_coordinates_spec_witness:
  "translation_exact 1071 1516 tracked_row \<and>
   dets (adjust_detection_coordinates (results_of [tracked_row]) 1071 1516) =
     [\<lparr>x1 = 2147 / 2, y1 = 1523, x2 = 1111, y2 = 1549, track_id = 17, conf = 1 / 2, cls = 1\<rparr>] \<and>
   adjust_detection_coordinates
     (adjust_detection_coordinates (results_of [tracked_row]) 1071 1516) (- 1071) (- 1516) =
     results_of [tracked_row] \<and>
   x1 (adjust_row 1071 1516 tenth_row) = 8774451 / 8192 \<and>
   boxes_empty (results_of ([] :: real row list)) \<and>
   adjust_detection_coordinates (results_of ([] :: real row list)) 1071 1516 = results_of []"
proof -
  have t: "translation_exact 1071 1516 tracked_row"
    by (simp add: translation_exact_def float32_value_def tracked_row_def float_eval)
  then have all: "\<forall>r \<in> set (dets (results_of [tracked_row])). translation_exact 1071 1516 r"
    by (simp add: dets_def results_of_def)
  have tenth: "float32 (13421773 / 134217728 + float32 1071) = 8774451 / 8192"
    by (simp add: float_eval)
  from adjust_detection_coordinates_spec [of "results_of [tracked_row]" 1071 1516 tracked_row]
    adjust_detection_coordinates_spec [of "results_of [tenth_row]" 1071 1516 tenth_row]
    adjust_detection_coordinates_spec [of "results_of ([] :: real row list)" 1071 1516 tracked_row]
    t all tenth
  show ?thesis
    by (simp add: boxes_empty_def dets_def results_of_def tracked_row_def tenth_row_def)
qed

text \<open>
  Without exactness the round trip loses digits: the left edge \<open>13421773 / 134217728\<close>,
  translated by 1071 and back, becomes \<open>819 / 8192\<close>.
\<close>

theorem adjust_detection_coordinates_counterexample:
  "adjust_detection_coordinates
     (adjust_detection_coordinates (results_of [tenth_row]) 1071 1516) (- 1071) (- 1516) \<noteq>
   results_of [tenth_row]"
  unfolding tenth_round_trip by (simp add: results_of_def tenth_row_def)

text \<open>
  C5.  Filtering by class keeps exactly the detections whose class is in the allowed
  list, in their order.  It is a total function: when no detection matches, and so for
  the empty list of classes, the result has no boxes.  When every detection has an
  allowed class the result is returned unchanged; this is the case for the list of the
  known classes 0, 1 and 2 and a result whose classes are among them.
\<close>

theorem filter_detections_by_class_spec:
  "dets (filter_detections_by_class R allowed) = filter (\<lambda>r. isin (cls r) allowed) (dets R) \<and>
   ((\<forall>r \<in> set (dets R). \<not> isin (cls r) allowed) \<longrightarrow>
      boxes_empty (filter_detections_by_class R allowed)) \<and>
   boxes_empty (filter_detections_by_class R []) \<and>
   ((\<forall>r \<in> set (dets R). isin (cls r) allowed) \<longrightarrow> filter_detections_by_class R allowed = R) \<and>
   ((\<forall>r \<in> set (dets R). cls r \<in> {0, 1, 2}) \<longrightarrow>
      filter_detections_by_class R known_classes = R)"
proof -
  have a: "dets (filter_detections_by_class R allowed) =
      filter (\<lambda>r. isin (cls r) allowed) (dets R)" for allowed
    by (rule dets_filter)
  have b: "(\<forall>r \<in> set (dets R). \<not> isin (cls r) allowed) \<longrightarrow>
      boxes_empty (filter_detections_by_class R allowed)" for allowed
    by (simp add: boxes_empty_dets a)
  have c: "boxes_empty (filter_detections_by_class R [])"
    using b [of "[]"] by (simp add: isin_def)
  have d: "(\<forall>r \<in> set (dets R). isin (cls r) allowed) \<longrightarrow>
      filter_detections_by_class R allowed = R" for allowed
    by (simp add: filter_all_allowed)
  have e: "(\<forall>r \<in> set (dets R). cls r \<in> {0, 1, 2}) \<longrightarrow>
      filter_detections_by_class R known_classes = R"
    using d [of known_classes] by (simp add: isin_def known_classes_def category_map_def)
  from a b c d e show ?thesis by blast
qed

theorem filter_detections_by_class_spec_witness:
  "dets (filter_detections_by_class (results_of [signature_row_1, qr_row, signature_row_2]) [2]) =
     [qr_row] \<and>
   boxes (filter_detections_by_class (results_of [signature_row_1, signature_row_2]) [2]) = None \<and>
   boxes_empty (filter_detections_by_class (results_of [signature_row_1, qr_row]) []) \<and>
   filter_detections_by_class (results_of [signature_row_1, qr_row, signature_row_2]) known_classes =
     results_of [signature_row_1, qr_row, signature_row_2]"
  using filter_detections_by_class_spec [of "results_of [signature_row_1, qr_row, signature_row_2]" "[2]"]
    filter_detections_by_class_spec [of "results_of [signature_row_1, signature_row_2]" "[2]"]
    filter_detections_by_class_spec [of "results_of [signature_row_1, qr_row]" "[]"]
  by (simp add: filter_detections_by_class_eq boxes_empty_def dets_def results_of_def isin_def
      signature_row_1_def signature_row_2_def qr_row_def known_classes_def category_map_def)

end
